theory Spec2Isabelle
  imports Main "HOL-Library.Word"
begin

section \<open>JavaScript values used by the two components\<close>

text \<open>
  A JavaScript string is a sequence of UTF-16 code units.  String literals of the source
  are ASCII and are embedded with \<open>js_str\<close>.
\<close>

type_synonym jsstring = "16 word list"

definition js_str :: "string \<Rightarrow> jsstring" where
  "js_str = map of_char"

text \<open>
  \<open>String.prototype.trim\<close> removes, at both ends, the code units that ECMAScript calls
  WhiteSpace (TAB, VT, FF, SP, NBSP, ZWNBSP and the Unicode space separators) or
  LineTerminator (LF, CR, LS, PS).
\<close>

definition js_whitespace :: "16 word \<Rightarrow> bool" where
  "js_whitespace c =
     (c \<in> set [0x0009, 0x000A, 0x000B, 0x000C, 0x000D, 0x0020, 0x00A0, 0x1680,
                0x2028, 0x2029, 0x202F, 0x205F, 0x3000, 0xFEFF]
      \<or> (0x2000 \<le> c \<and> c \<le> 0x200A))"

definition trim :: "jsstring \<Rightarrow> jsstring" where
  "trim s = rev (dropWhile js_whitespace (rev (dropWhile js_whitespace s)))"

text \<open>
  Truthiness of a value of type \<open>string | null | undefined\<close>: only a non-empty string is
  truthy.  \<open>or_else a b\<close> is \<open>a || b\<close> for such an \<open>a\<close>.
\<close>

definition truthy :: "jsstring option \<Rightarrow> bool" where
  "truthy a = (case a of None \<Rightarrow> False | Some x \<Rightarrow> x \<noteq> [])"

definition or_else :: "jsstring option \<Rightarrow> jsstring \<Rightarrow> jsstring" where
  "or_else a b = (if truthy a then (case a of Some x \<Rightarrow> x | None \<Rightarrow> b) else b)"

text \<open>A thrown value, as far as the handlers look at it: its \<open>message\<close> property.\<close>

datatype js_error = JsError (message: "jsstring option")

section \<open>VerificationPortal\<close>

text \<open>
  The ten \<open>useState\<close> cells of the component.  The type \<open>Credential\<close> is declared
  outside the two source files, so it is the type parameter \<open>'c\<close>; a value of type
  \<open>Credential | null\<close> is a \<open>'c option\<close> and is truthy exactly when it is \<open>Some\<close>.
\<close>

record 'c portal =
  tokenId :: jsstring
  credential :: "'c option"
  loading :: bool
  error :: "jsstring option"
  searched :: bool
  walletAddress :: "jsstring option"
  hasAccess :: bool
  checkingAccess :: bool
  showPricing :: bool
  verificationCount :: nat

definition initial :: "'c portal" where
  "initial = \<lparr>tokenId = [], credential = None, loading = False, error = None,
     searched = False, walletAddress = None, hasAccess = False, checkingAccess = False,
     showPricing = False, verificationCount = 0\<rparr>"

text \<open>
  \<open>verifyCredential\<close> is an external service: it returns a credential or \<open>null\<close>, or
  throws.  It is a parameter of the model, \<open>Inl\<close> being the thrown value.
\<close>

type_synonym 'c verifier = "jsstring \<Rightarrow> js_error + 'c option"

text \<open>
  The three ways through the synchronous part of \<open>handleVerify\<close>: the two early returns,
  and the call of the service with its argument.
\<close>

datatype verify_path = EmptyInput | LimitReached | Queried jsstring

fun service_calls :: "verify_path \<Rightarrow> jsstring list" where
  "service_calls (Queried x) = [x]"
| "service_calls _ = []"

text \<open>
  A handler is a closure over the state of the render that created it (\<open>cl\<close>): it reads
  state from there, and its setters update the current state (\<open>s\<close>).  When the handler is
  run from the rendered page, both are the same state.

  \<open>handleVerify_enter\<close> is the handler up to \<open>await verifyCredential(idToVerify)\<close>,
  \<open>handleVerify_settle\<close> is the rest, given what the service answered.
\<close>

definition handleVerify_enter ::
  "jsstring option \<Rightarrow> 'c portal \<Rightarrow> 'c portal \<Rightarrow> verify_path \<times> 'c portal" where
  "handleVerify_enter idArg cl s =
     (let idToVerify = or_else idArg (tokenId cl) in
      if trim idToVerify = [] then
        (EmptyInput, s\<lparr>error := Some (js_str ''Please enter a token ID'')\<rparr>)
      else if truthy (walletAddress cl) \<and> \<not> hasAccess cl \<and> 3 \<le> verificationCount cl then
        (LimitReached,
         s\<lparr>error := Some (js_str ''Verification limit reached. Please subscribe to continue.''),
           showPricing := True\<rparr>)
      else
        (Queried idToVerify,
         s\<lparr>loading := True, error := None, credential := None, searched := True\<rparr>))"

definition handleVerify_settle ::
  "'c portal \<Rightarrow> js_error + 'c option \<Rightarrow> 'c portal \<Rightarrow> 'c portal" where
  "handleVerify_settle cl answer s =
     (case answer of
        Inr (Some result) \<Rightarrow>
          (let s1 = s\<lparr>credential := Some result\<rparr>;
               s2 = (if truthy (walletAddress cl) \<and> \<not> hasAccess cl
                     then s1\<lparr>verificationCount := verificationCount s1 + 1\<rparr> else s1)
           in s2\<lparr>loading := False\<rparr>)
      | Inr None \<Rightarrow>
          s\<lparr>error := Some (js_str ''Credential not found or invalid token ID''),
            loading := False\<rparr>
      | Inl err \<Rightarrow>
          s\<lparr>error := Some (or_else (message err) (js_str ''Failed to verify credential'')),
            loading := False\<rparr>)"

definition handleVerify ::
  "'c verifier \<Rightarrow> jsstring option \<Rightarrow> 'c portal \<Rightarrow> 'c portal \<Rightarrow> verify_path \<times> 'c portal" where
  "handleVerify verifyCredential idArg cl s =
     (case handleVerify_enter idArg cl s of
        (Queried x, s1) \<Rightarrow> (Queried x, handleVerify_settle cl (verifyCredential x) s1)
      | (p, s1) \<Rightarrow> (p, s1))"

text \<open>
  The result panel is rendered by \<open>{searched && credential && (...)}\<close>.
\<close>

definition result_panel :: "'c portal \<Rightarrow> bool" where
  "result_panel s = (searched s \<and> credential s \<noteq> None)"

text \<open>
  \<open>checkAccess\<close>, run by the effect on \<open>walletAddress\<close> and after a purchase.
  \<open>checkUserSubscription\<close> is external; nothing catches what it throws, so the handler
  then stops after \<open>setCheckingAccess(true)\<close>.
\<close>

definition checkAccess ::
  "(jsstring \<Rightarrow> jsstring \<Rightarrow> js_error + bool) \<Rightarrow> 'c portal \<Rightarrow> 'c portal \<Rightarrow> 'c portal" where
  "checkAccess checkUserSubscription cl s =
     (case walletAddress cl of
        None \<Rightarrow> s
      | Some address \<Rightarrow>
          if address = [] then s
          else
            (let s1 = s\<lparr>checkingAccess := True\<rparr> in
             case checkUserSubscription address (js_str ''employer'') of
               Inl err \<Rightarrow> s1
             | Inr access \<Rightarrow> s1\<lparr>hasAccess := access, checkingAccess := False\<rparr>))"

text \<open>
  \<open>checkWalletConnection\<close>: \<open>window.ethereum\<close> may be absent, and its
  \<open>eth_accounts\<close> request returns the authorised accounts or throws (caught and logged).
\<close>

datatype provider = NoProvider | Accounts "jsstring list" | RequestFailed js_error

definition checkWalletConnection :: "provider \<Rightarrow> 'c portal \<Rightarrow> 'c portal" where
  "checkWalletConnection ethereum s =
     (case ethereum of
        NoProvider \<Rightarrow> s
      | RequestFailed err \<Rightarrow> s
      | Accounts accounts \<Rightarrow>
          (case accounts of [] \<Rightarrow> s | a # _ \<Rightarrow> s\<lparr>walletAddress := Some a\<rparr>))"

text \<open>
  The effect run once after the first render, whose state is the closure \<open>cl\<close>.
  \<open>verifyParam\<close> is \<open>urlParams.get('verify')\<close>, a string or \<open>null\<close>.  The first
  component of the result is the path of the verification attempt, if one was started.
\<close>

definition mount ::
  "'c verifier \<Rightarrow> provider \<Rightarrow> jsstring option \<Rightarrow> 'c portal \<Rightarrow> verify_path option \<times> 'c portal" where
  "mount verifyCredential ethereum verifyParam cl =
     (let (p, s1) =
        (case verifyParam of
           None \<Rightarrow> (None, cl)
         | Some v \<Rightarrow>
             if v = [] then (None, cl)
             else (case handleVerify verifyCredential (Some v) cl (cl\<lparr>tokenId := v\<rparr>) of
                     (p, s') \<Rightarrow> (Some p, s')))
      in (p, checkWalletConnection ethereum s1))"

text \<open>
  A session on the rendered page: the visitor edits the input field (\<open>onChange\<close>) and
  starts verification attempts, each of which runs to its end before the next event.  The
  answers of the service may change from one attempt to the next, so every attempt carries
  its own.  The log holds, for every attempt, its path and the state it left.
\<close>

datatype 'c event = Change jsstring | Verify "'c verifier" "jsstring option"

fun run :: "'c portal \<Rightarrow> 'c event list \<Rightarrow> (verify_path \<times> 'c portal) list \<times> 'c portal" where
  "run s [] = ([], s)"
| "run s (Change v # evs) = run (s\<lparr>tokenId := v\<rparr>) evs"
| "run s (Verify verifyCredential idArg # evs) =
     (case handleVerify verifyCredential idArg s s of
        (p, s') \<Rightarrow> (case run s' evs of (log, t) \<Rightarrow> ((p, s') # log, t)))"

text \<open>An attempt of the log that ended with a credential on display.\<close>

fun displayed :: "verify_path \<times> 'c portal \<Rightarrow> bool" where
  "displayed (Queried x, t) = (credential t \<noteq> None)"
| "displayed _ = False"

definition successes :: "(verify_path \<times> 'c portal) list \<Rightarrow> nat" where
  "successes log = length (filter displayed log)"

section \<open>StudentWallet\<close>

text \<open>
  The state cells of the component; \<open>Credential\<close> and \<open>CredentialRecord\<close> are declared
  elsewhere and are the type parameters \<open>'c\<close> and \<open>'r\<close>.
\<close>

datatype tab = Credentials | Profile

record ('c, 'r) wallet =
  activeTab :: tab
  walletAddress_sw :: "jsstring option"
  credentials :: "'c list"
  loading_sw :: bool
  selectedCredential :: "'c option"
  shareCredential :: "'r option"
  viewAuditCredential :: "jsstring option"
  dbCredentials :: "'r list"
  view3D :: bool

definition initial_sw :: "('c, 'r) wallet" where
  "initial_sw = \<lparr>activeTab = Credentials, walletAddress_sw = None, credentials = [],
     loading_sw = False, selectedCredential = None, shareCredential = None,
     viewAuditCredential = None, dbCredentials = [], view3D = False\<rparr>"

text \<open>The external functions the component calls, each returning or throwing.\<close>

record ('c, 'r) services =
  connectWallet :: "js_error + jsstring option"
  switchToSepolia :: "js_error + unit"
  getStudentCredentials :: "jsstring \<Rightarrow> js_error + 'c list"
  getCredentialsByStudent :: "jsstring \<Rightarrow> js_error + 'r list"

text \<open>What a handler does to the outside, in order: its calls and its \<open>console.error\<close>s.\<close>

datatype effect =
    Call_connectWallet
  | Call_switchToSepolia
  | Call_getStudentCredentials jsstring
  | Call_getCredentialsByStudent jsstring
  | Console_error jsstring js_error

definition loadCredentials ::
  "('c, 'r) services \<Rightarrow> jsstring \<Rightarrow> ('c, 'r) wallet \<Rightarrow> effect list \<times> ('c, 'r) wallet" where
  "loadCredentials env address s =
     (let s1 = s\<lparr>loading_sw := True\<rparr> in
      case getStudentCredentials env address of
        Inl err \<Rightarrow>
          ([Call_getStudentCredentials address,
            Console_error (js_str ''Error loading credentials:'') err],
           s1\<lparr>loading_sw := False\<rparr>)
      | Inr creds \<Rightarrow>
          (let s2 = s1\<lparr>credentials := creds\<rparr> in
           case getCredentialsByStudent env address of
             Inl err \<Rightarrow>
               ([Call_getStudentCredentials address, Call_getCredentialsByStudent address,
                 Console_error (js_str ''Error loading credentials:'') err],
                s2\<lparr>loading_sw := False\<rparr>)
           | Inr dbCreds \<Rightarrow>
               ([Call_getStudentCredentials address, Call_getCredentialsByStudent address],
                s2\<lparr>dbCredentials := dbCreds, loading_sw := False\<rparr>)))"

text \<open>
  \<open>handleConnectWallet\<close> of StudentWallet.  It starts \<open>loadCredentials(address)\<close> without
  awaiting it, so a failure of the load is handled by the \<open>catch\<close> of \<open>loadCredentials\<close>
  alone; both handlers end with \<open>setLoading(false)\<close>, and the state given here is the one
  after both have ended.
\<close>

definition handleConnectWallet_sw ::
  "('c, 'r) services \<Rightarrow> ('c, 'r) wallet \<Rightarrow> effect list \<times> ('c, 'r) wallet" where
  "handleConnectWallet_sw env s =
     (let s1 = s\<lparr>loading_sw := True\<rparr> in
      case connectWallet env of
        Inl err \<Rightarrow>
          ([Call_connectWallet, Console_error (js_str ''Error connecting wallet:'') err],
           s1\<lparr>loading_sw := False\<rparr>)
      | Inr address \<Rightarrow>
          if truthy address then
            (let a = or_else address [];
                 s2 = s1\<lparr>walletAddress_sw := Some a\<rparr> in
             case switchToSepolia env of
               Inl err \<Rightarrow>
                 ([Call_connectWallet, Call_switchToSepolia,
                   Console_error (js_str ''Error connecting wallet:'') err],
                  s2\<lparr>loading_sw := False\<rparr>)
             | Inr u \<Rightarrow>
                 (case loadCredentials env a s2 of
                    (tr, s3) \<Rightarrow>
                      ([Call_connectWallet, Call_switchToSepolia] @ tr,
                       s3\<lparr>loading_sw := False\<rparr>)))
          else ([Call_connectWallet], s1\<lparr>loading_sw := False\<rparr>))"

text \<open>The component returns the connect screen when \<open>!walletAddress\<close>.\<close>

definition connect_screen :: "('c, 'r) wallet \<Rightarrow> bool" where
  "connect_screen s = (\<not> truthy (walletAddress_sw s))"

section \<open>Input validation\<close>

lemma trim_blank: "list_all js_whitespace xs \<Longrightarrow> trim xs = []"
proof -
  assume "list_all js_whitespace xs"
  then have "dropWhile js_whitespace xs = []"
    by (simp add: list_all_iff)
  then show "trim xs = []"
    unfolding trim_def by (simp del: dropWhile_eq_Nil_conv)
qed

lemma trim_empty_iff: "trim xs = [] \<longleftrightarrow> list_all js_whitespace xs"
proof
  assume "trim xs = []"
  then have "dropWhile js_whitespace (rev (dropWhile js_whitespace xs)) = []"
    by (simp add: trim_def)
  then have "\<forall>x \<in> set (dropWhile js_whitespace xs). js_whitespace x"
    by (simp add: dropWhile_eq_Nil_conv)
  moreover have "dropWhile js_whitespace xs \<noteq> [] \<Longrightarrow>
      \<not> js_whitespace (hd (dropWhile js_whitespace xs))"
    by (rule hd_dropWhile)
  ultimately have "dropWhile js_whitespace xs = []"
    by (cases "dropWhile js_whitespace xs") auto
  then show "list_all js_whitespace xs"
    by (simp add: list_all_iff)
qed (rule trim_blank)

text \<open>
  C2. Whenever the token ID to verify (the argument, or else the input field) is empty,
  \<open>handleVerify\<close> sets the error to "Please enter a token ID", changes nothing else and
  does not call the verification service.
\<close>

theorem handleVerify_empty_id:
  assumes "or_else idArg (tokenId s) = []"
  shows "handleVerify verifyCredential idArg s s =
           (EmptyInput, s\<lparr>error := Some (js_str ''Please enter a token ID'')\<rparr>)
         \<and> service_calls (fst (handleVerify verifyCredential idArg s s)) = []"
  using assms by (simp add: handleVerify_def handleVerify_enter_def trim_def)

theorem handleVerify_empty_id_witness:
  "or_else None (tokenId (initial :: nat portal)) = []
   \<and> handleVerify (\<lambda>x. Inr (Some 7)) None (initial :: nat portal) initial =
       (EmptyInput, initial\<lparr>error := Some (js_str ''Please enter a token ID'')\<rparr>)
   \<and> service_calls (fst (handleVerify (\<lambda>x. Inr (Some 7)) None (initial :: nat portal) initial)) = []"
proof -
  have h: "or_else None (tokenId (initial :: nat portal)) = []"
    by (simp add: or_else_def truthy_def initial_def)
  show ?thesis
    using h handleVerify_empty_id [OF h, of "\<lambda>x. Inr (Some 7)"] by simp
qed

text \<open>
  C9. An input made of whitespace only is treated like an empty one: the error is
  "Please enter a token ID" and the verification service is not called.
\<close>

theorem handleVerify_whitespace_id:
  assumes "list_all js_whitespace (or_else idArg (tokenId s))"
  shows "handleVerify verifyCredential idArg s s =
           (EmptyInput, s\<lparr>error := Some (js_str ''Please enter a token ID'')\<rparr>)
         \<and> service_calls (fst (handleVerify verifyCredential idArg s s)) = []"
  using assms by (simp add: handleVerify_def handleVerify_enter_def trim_blank)

theorem handleVerify_whitespace_id_witness:
  "list_all js_whitespace (or_else (Some [0x20, 0x09, 0x3000]) (tokenId (initial :: nat portal)))
   \<and> handleVerify (\<lambda>x. Inr (Some 7)) (Some [0x20, 0x09, 0x3000]) (initial :: nat portal) initial =
       (EmptyInput, initial\<lparr>error := Some (js_str ''Please enter a token ID'')\<rparr>)
   \<and> service_calls (fst (handleVerify (\<lambda>x. Inr (Some 7)) (Some [0x20, 0x09, 0x3000])
        (initial :: nat portal) initial)) = []"
proof -
  have h: "list_all js_whitespace
      (or_else (Some [0x20, 0x09, 0x3000]) (tokenId (initial :: nat portal)))"
    by (simp add: or_else_def truthy_def js_whitespace_def)
  show ?thesis
    using h handleVerify_whitespace_id [OF h, of "\<lambda>x. Inr (Some 7)"] by simp
qed

section \<open>Verification attempts and sessions\<close>

lemma handleVerify_keeps:
  "walletAddress (snd (handleVerify vc a cl s)) = walletAddress s
   \<and> hasAccess (snd (handleVerify vc a cl s)) = hasAccess s
   \<and> tokenId (snd (handleVerify vc a cl s)) = tokenId s"
  by (auto simp: handleVerify_def handleVerify_enter_def handleVerify_settle_def Let_def
      split: if_splits sum.splits option.splits)

lemma handleVerify_count:
  "verificationCount (snd (handleVerify vc a s s)) = verificationCount s +
       (if truthy (walletAddress s) \<and> \<not> hasAccess s \<and> displayed (handleVerify vc a s s)
        then 1 else 0)"
  by (auto simp: handleVerify_def handleVerify_enter_def handleVerify_settle_def Let_def
      split: if_splits sum.splits option.splits)

lemma handleVerify_limit_iff:
  "fst (handleVerify vc a s s) = LimitReached \<longleftrightarrow>
     trim (or_else a (tokenId s)) \<noteq> [] \<and> truthy (walletAddress s) \<and> \<not> hasAccess s
       \<and> 3 \<le> verificationCount s"
  by (auto simp: handleVerify_def handleVerify_enter_def Let_def split: if_splits)

text \<open>The equation of \<open>run\<close> for an attempt, in terms of projections.\<close>

lemma run_Verify:
  "run s (Verify vc a # evs) =
     (handleVerify vc a s s # fst (run (snd (handleVerify vc a s s)) evs),
      snd (run (snd (handleVerify vc a s s)) evs))"
  by (simp split: prod.splits)

declare run.simps(3) [simp del]

lemma run_keeps:
  "walletAddress (snd (run s evs)) = walletAddress s \<and> hasAccess (snd (run s evs)) = hasAccess s"
proof (induction evs arbitrary: s)
  case Nil
  show ?case by simp
next
  case (Cons e evs)
  show ?case
  proof (cases e)
    case (Change v)
    with Cons [of "s\<lparr>tokenId := v\<rparr>"] show ?thesis by simp
  next
    case (Verify vc a)
    with Cons [of "snd (handleVerify vc a s s)"] handleVerify_keeps [of vc a s s]
    show ?thesis by (simp add: run_Verify)
  qed
qed

lemma run_count:
  "verificationCount (snd (run s evs)) = verificationCount s +
       (if truthy (walletAddress s) \<and> \<not> hasAccess s then successes (fst (run s evs)) else 0)"
proof (induction evs arbitrary: s)
  case Nil
  show ?case by (simp add: successes_def)
next
  case (Cons ev evs)
  show ?case
  proof (cases ev)
    case (Change v)
    with Cons [of "s\<lparr>tokenId := v\<rparr>"] show ?thesis by simp
  next
    case (Verify vc a)
    with Cons [of "snd (handleVerify vc a s s)"] handleVerify_keeps [of vc a s s]
      handleVerify_count [of vc a s]
    show ?thesis by (simp add: run_Verify successes_def)
  qed
qed

lemma successes_le: "successes log \<le> length log"
  by (simp add: successes_def)

lemma run_log_count:
  "e \<in> set (fst (run s evs)) \<Longrightarrow> \<not> (truthy (walletAddress s) \<and> \<not> hasAccess s) \<Longrightarrow>
     verificationCount (snd e) = verificationCount s"
proof (induction evs arbitrary: s)
  case Nil
  then show ?case by simp
next
  case (Cons ev evs)
  show ?case
  proof (cases ev)
    case (Change v)
    with Cons.prems Cons.IH [of "s\<lparr>tokenId := v\<rparr>"] show ?thesis by simp
  next
    case (Verify vc a)
    with Cons.prems have "e = handleVerify vc a s s
        \<or> e \<in> set (fst (run (snd (handleVerify vc a s s)) evs))"
      by (simp add: run_Verify)
    with Cons.IH [of "snd (handleVerify vc a s s)"] Cons.prems(2) handleVerify_keeps [of vc a s s]
      handleVerify_count [of vc a s]
    show ?thesis by auto
  qed
qed

lemma run_log_not_limit:
  "e \<in> set (fst (run s evs)) \<Longrightarrow> \<not> (truthy (walletAddress s) \<and> \<not> hasAccess s) \<Longrightarrow>
     fst e \<noteq> LimitReached"
proof (induction evs arbitrary: s)
  case Nil
  then show ?case by simp
next
  case (Cons ev evs)
  show ?case
  proof (cases ev)
    case (Change v)
    with Cons.prems Cons.IH [of "s\<lparr>tokenId := v\<rparr>"] show ?thesis by simp
  next
    case (Verify vc a)
    with Cons.prems have "e = handleVerify vc a s s
        \<or> e \<in> set (fst (run (snd (handleVerify vc a s s)) evs))"
      by (simp add: run_Verify)
    with Cons.IH [of "snd (handleVerify vc a s s)"] Cons.prems(2) handleVerify_keeps [of vc a s s]
      handleVerify_limit_iff [of vc a s]
    show ?thesis by auto
  qed
qed





text \<open>
  C10. A cap rejection changes the error message and the pricing flag and nothing else: the
  displayed credential, the searched flag, the loading flag, the input field and the counter
  keep their values, so a result panel that was visible stays visible.
\<close>

theorem handleVerify_cap_rejection:
  assumes "fst (handleVerify verifyCredential idArg s s) = LimitReached"
  shows "snd (handleVerify verifyCredential idArg s s) =
           s\<lparr>error := Some (js_str ''Verification limit reached. Please subscribe to continue.''),
             showPricing := True\<rparr>
         \<and> credential (snd (handleVerify verifyCredential idArg s s)) = credential s
         \<and> searched (snd (handleVerify verifyCredential idArg s s)) = searched s
         \<and> loading (snd (handleVerify verifyCredential idArg s s)) = loading s
         \<and> tokenId (snd (handleVerify verifyCredential idArg s s)) = tokenId s
         \<and> verificationCount (snd (handleVerify verifyCredential idArg s s)) = verificationCount s
         \<and> result_panel (snd (handleVerify verifyCredential idArg s s)) = result_panel s"
  using assms
  by (auto simp: handleVerify_def handleVerify_enter_def Let_def result_panel_def
      split: if_splits)

theorem handleVerify_cap_rejection_witness:
  "fst (handleVerify (\<lambda>x. Inr (Some 8)) None
      ((initial :: nat portal)\<lparr>tokenId := [0x35], credential := Some 7, searched := True,
         walletAddress := Some [0x30, 0x78], verificationCount := 3\<rparr>)
      (initial\<lparr>tokenId := [0x35], credential := Some 7, searched := True,
         walletAddress := Some [0x30, 0x78], verificationCount := 3\<rparr>)) = LimitReached
   \<and> credential (snd (handleVerify (\<lambda>x. Inr (Some 8)) None
      ((initial :: nat portal)\<lparr>tokenId := [0x35], credential := Some 7, searched := True,
         walletAddress := Some [0x30, 0x78], verificationCount := 3\<rparr>)
      (initial\<lparr>tokenId := [0x35], credential := Some 7, searched := True,
         walletAddress := Some [0x30, 0x78], verificationCount := 3\<rparr>))) = Some 7
   \<and> result_panel (snd (handleVerify (\<lambda>x. Inr (Some 8)) None
      ((initial :: nat portal)\<lparr>tokenId := [0x35], credential := Some 7, searched := True,
         walletAddress := Some [0x30, 0x78], verificationCount := 3\<rparr>)
      (initial\<lparr>tokenId := [0x35], credential := Some 7, searched := True,
         walletAddress := Some [0x30, 0x78], verificationCount := 3\<rparr>)))"
proof -
  let ?s = "(initial :: nat portal)\<lparr>tokenId := [0x35], credential := Some 7, searched := True,
         walletAddress := Some [0x30, 0x78], verificationCount := 3\<rparr>"
  let ?vc = "\<lambda>x :: jsstring. Inr (Some 8) :: js_error + nat option"
  have h: "fst (handleVerify ?vc None ?s ?s) = LimitReached"
    by code_simp
  have c: "credential ?s = Some 7" and p: "result_panel ?s"
    by (simp_all add: result_panel_def)
  from handleVerify_cap_rejection [OF h]
  have "credential (snd (handleVerify ?vc None ?s ?s)) = credential ?s"
    and "result_panel (snd (handleVerify ?vc None ?s ?s)) = result_panel ?s"
    by blast+
  with h c p show ?thesis
    by (simp only: simp_thms)
qed

text \<open>
  C4. With no wallet address (\<open>walletAddress\<close> is \<open>null\<close>), no attempt is rejected by the
  cap, whatever the counter holds and however many attempts the session has seen.
\<close>

theorem unconnected_never_capped:
  assumes "walletAddress s = None"
  shows "fst (handleVerify verifyCredential idArg s s) \<noteq> LimitReached
         \<and> LimitReached \<notin> set (map fst (fst (run s evs)))"
proof
  from assms show "fst (handleVerify verifyCredential idArg s s) \<noteq> LimitReached"
    by (simp add: handleVerify_limit_iff truthy_def)
  from assms have "\<not> (truthy (walletAddress s) \<and> \<not> hasAccess s)"
    by (simp add: truthy_def)
  then have "\<And>e. e \<in> set (fst (run s evs)) \<Longrightarrow> fst e \<noteq> LimitReached"
    by (rule run_log_not_limit [rotated])
  then show "LimitReached \<notin> set (map fst (fst (run s evs)))"
    by force
qed

theorem unconnected_never_capped_witness:
  "walletAddress ((initial :: nat portal)\<lparr>tokenId := [0x35], verificationCount := 9\<rparr>) = None
   \<and> map fst (fst (run ((initial :: nat portal)\<lparr>tokenId := [0x35], verificationCount := 9\<rparr>)
        [Verify (\<lambda>x. Inr (Some 8)) None, Verify (\<lambda>x. Inr (Some 8)) None,
         Verify (\<lambda>x. Inr (Some 8)) None, Verify (\<lambda>x. Inr (Some 8)) None,
         Verify (\<lambda>x. Inr (Some 8)) None])) =
       [Queried [0x35], Queried [0x35], Queried [0x35], Queried [0x35], Queried [0x35]]
   \<and> fst (handleVerify (\<lambda>x. Inr (Some 8)) None
        ((initial :: nat portal)\<lparr>tokenId := [0x35], verificationCount := 9\<rparr>)
        (initial\<lparr>tokenId := [0x35], verificationCount := 9\<rparr>)) \<noteq> LimitReached
   \<and> LimitReached \<notin> set (map fst (fst (run
        ((initial :: nat portal)\<lparr>tokenId := [0x35], verificationCount := 9\<rparr>)
        [Verify (\<lambda>x. Inr (Some 8)) None, Verify (\<lambda>x. Inr (Some 8)) None,
         Verify (\<lambda>x. Inr (Some 8)) None, Verify (\<lambda>x. Inr (Some 8)) None,
         Verify (\<lambda>x. Inr (Some 8)) None])))"
proof -
  let ?s = "(initial :: nat portal)\<lparr>tokenId := [0x35], verificationCount := 9\<rparr>"
  let ?vc = "\<lambda>x :: jsstring. Inr (Some 8) :: js_error + nat option"
  let ?evs = "[Verify ?vc None, Verify ?vc None, Verify ?vc None, Verify ?vc None,
     Verify ?vc None]"
  have h: "walletAddress ?s = None"
    by (simp add: initial_def)
  have l: "map fst (fst (run ?s ?evs)) =
      [Queried [0x35], Queried [0x35], Queried [0x35], Queried [0x35], Queried [0x35]]"
    by code_simp
  from h l unconnected_never_capped [OF h, of ?vc None ?evs] show ?thesis
    by blast
qed

text \<open>
  C5. Once the subscription check of a connected visitor has returned access, no attempt is
  rejected by the cap and the counter is never incremented.
\<close>

theorem subscribed_never_capped:
  assumes "walletAddress s0 = Some address" and "address \<noteq> []"
    and "checkUserSubscription address (js_str ''employer'') = Inr True"
  shows "hasAccess (checkAccess checkUserSubscription s0 s0)
         \<and> LimitReached \<notin> set (map fst (fst (run (checkAccess checkUserSubscription s0 s0) evs)))
         \<and> verificationCount ` snd ` set (fst (run (checkAccess checkUserSubscription s0 s0) evs))
             \<subseteq> {verificationCount s0}
         \<and> verificationCount (snd (run (checkAccess checkUserSubscription s0 s0) evs))
             = verificationCount s0"
proof -
  let ?s = "checkAccess checkUserSubscription s0 s0"
  from assms have a: "hasAccess ?s" and c: "verificationCount ?s = verificationCount s0"
    by (simp_all add: checkAccess_def)
  from a have n: "\<not> (truthy (walletAddress ?s) \<and> \<not> hasAccess ?s)"
    by simp
  have "\<And>e. e \<in> set (fst (run ?s evs)) \<Longrightarrow> fst e \<noteq> LimitReached"
    using n by (rule run_log_not_limit [rotated])
  then have l: "LimitReached \<notin> set (map fst (fst (run ?s evs)))"
    by force
  have "\<And>e. e \<in> set (fst (run ?s evs)) \<Longrightarrow> verificationCount (snd e) = verificationCount ?s"
    using n by (rule run_log_count [rotated])
  with c have i: "verificationCount ` snd ` set (fst (run ?s evs)) \<subseteq> {verificationCount s0}"
    by auto
  from a c run_count [of ?s evs] have f: "verificationCount (snd (run ?s evs)) = verificationCount s0"
    by simp
  from a l i f show ?thesis
    by blast
qed

theorem subscribed_never_capped_witness:
  "walletAddress ((initial :: nat portal)\<lparr>tokenId := [0x35], walletAddress := Some [0x30, 0x78]\<rparr>)
     = Some [0x30, 0x78]
   \<and> [0x30, 0x78] \<noteq> ([] :: jsstring)
   \<and> map fst (fst (run (checkAccess (\<lambda>a r. Inr True)
        ((initial :: nat portal)\<lparr>tokenId := [0x35], walletAddress := Some [0x30, 0x78]\<rparr>)
        (initial\<lparr>tokenId := [0x35], walletAddress := Some [0x30, 0x78]\<rparr>))
        [Verify (\<lambda>x. Inr (Some 8)) None, Verify (\<lambda>x. Inr (Some 8)) None,
         Verify (\<lambda>x. Inr (Some 8)) None, Verify (\<lambda>x. Inr (Some 8)) None])) =
       [Queried [0x35], Queried [0x35], Queried [0x35], Queried [0x35]]
   \<and> verificationCount (snd (run (checkAccess (\<lambda>a r. Inr True)
        ((initial :: nat portal)\<lparr>tokenId := [0x35], walletAddress := Some [0x30, 0x78]\<rparr>)
        (initial\<lparr>tokenId := [0x35], walletAddress := Some [0x30, 0x78]\<rparr>))
        [Verify (\<lambda>x. Inr (Some 8)) None, Verify (\<lambda>x. Inr (Some 8)) None,
         Verify (\<lambda>x. Inr (Some 8)) None, Verify (\<lambda>x. Inr (Some 8)) None])) =
       verificationCount ((initial :: nat portal)\<lparr>tokenId := [0x35], walletAddress := Some [0x30, 0x78]\<rparr>)"
proof -
  let ?s0 = "(initial :: nat portal)\<lparr>tokenId := [0x35], walletAddress := Some [0x30, 0x78]\<rparr>"
  let ?sub = "\<lambda>(a :: jsstring) (r :: jsstring). Inr True :: js_error + bool"
  let ?vc = "\<lambda>x :: jsstring. Inr (Some 8) :: js_error + nat option"
  let ?evs = "[Verify ?vc None, Verify ?vc None, Verify ?vc None, Verify ?vc None]"
  have h1: "walletAddress ?s0 = Some [0x30, 0x78]"
    by simp
  have h2: "[0x30, 0x78] \<noteq> ([] :: jsstring)"
    by simp
  have h3: "?sub [0x30, 0x78] (js_str ''employer'') = Inr True"
    by simp
  have l: "map fst (fst (run (checkAccess ?sub ?s0 ?s0) ?evs)) =
      [Queried [0x35], Queried [0x35], Queried [0x35], Queried [0x35]]"
    by code_simp
  from h1 h2 l subscribed_never_capped [OF h1 h2 h3, of ?evs] show ?thesis
    by blast
qed

lemma handleVerify_queried:
  "fst (handleVerify vc a s s) = Queried x \<Longrightarrow>
     x = or_else a (tokenId s)
     \<and> credential (snd (handleVerify vc a s s)) = (case vc x of Inr c \<Rightarrow> c | Inl err \<Rightarrow> None)
     \<and> error (snd (handleVerify vc a s s)) =
         (case vc x of
            Inr (Some c) \<Rightarrow> None
          | Inr None \<Rightarrow> Some (js_str ''Credential not found or invalid token ID'')
          | Inl err \<Rightarrow> Some (or_else (message err) (js_str ''Failed to verify credential'')))"
  by (auto simp: handleVerify_def handleVerify_enter_def handleVerify_settle_def Let_def
      split: if_splits sum.splits option.splits)

lemma handleVerify_limit_state:
  "fst (handleVerify vc a s s) = LimitReached \<Longrightarrow>
     snd (handleVerify vc a s s) =
       s\<lparr>error := Some (js_str ''Verification limit reached. Please subscribe to continue.''),
         showPricing := True\<rparr>"
  by (auto simp: handleVerify_def handleVerify_enter_def Let_def split: if_splits)

text \<open>
  C1, as the claim states it, fails: the counter counts the attempts that returned a
  credential, not the attempts.  Here a connected visitor without subscription makes four
  attempts, the first of which finds nothing: the fourth one is not blocked, it calls the
  service.
\<close>

theorem fourth_attempt_not_blocked:
  "truthy (walletAddress ((initial :: nat portal)\<lparr>tokenId := [0x35], walletAddress := Some [0x30, 0x78]\<rparr>))
   \<and> \<not> hasAccess ((initial :: nat portal)\<lparr>tokenId := [0x35], walletAddress := Some [0x30, 0x78]\<rparr>)
   \<and> map fst (fst (run ((initial :: nat portal)\<lparr>tokenId := [0x35], walletAddress := Some [0x30, 0x78]\<rparr>)
        [Verify (\<lambda>x. Inr None) None, Verify (\<lambda>x. Inr (Some 8)) None,
         Verify (\<lambda>x. Inr (Some 8)) None, Verify (\<lambda>x. Inr (Some 8)) None])) =
       [Queried [0x35], Queried [0x35], Queried [0x35], Queried [0x35]]"
  by code_simp

text \<open>
  C1, amended.  In a session of a connected visitor without subscription, an attempt with a
  non-blank token ID is blocked exactly when three earlier attempts of the session returned
  a credential; it then sets the limit error and opens the pricing prompt without calling
  the service.  So the first three attempts are never blocked by the cap, and the outcome
  of an attempt that is not blocked depends on the answer of the lookup only.
\<close>

theorem cap_after_three_successes:
  assumes "truthy (walletAddress s)" and "\<not> hasAccess s" and "verificationCount s = 0"
  shows "(fst (handleVerify verifyCredential idArg (snd (run s evs)) (snd (run s evs))) = LimitReached
            \<longleftrightarrow> trim (or_else idArg (tokenId (snd (run s evs)))) \<noteq> []
                \<and> 3 \<le> successes (fst (run s evs)))
         \<and> (fst (handleVerify verifyCredential idArg (snd (run s evs)) (snd (run s evs))) = LimitReached
            \<longrightarrow> snd (handleVerify verifyCredential idArg (snd (run s evs)) (snd (run s evs))) =
                  (snd (run s evs))\<lparr>error :=
                     Some (js_str ''Verification limit reached. Please subscribe to continue.''),
                     showPricing := True\<rparr>
                \<and> service_calls
                    (fst (handleVerify verifyCredential idArg (snd (run s evs)) (snd (run s evs)))) = [])
         \<and> (length (fst (run s evs)) < 3
            \<longrightarrow> fst (handleVerify verifyCredential idArg (snd (run s evs)) (snd (run s evs)))
                  \<noteq> LimitReached)
         \<and> (\<forall>x. fst (handleVerify verifyCredential idArg (snd (run s evs)) (snd (run s evs))) = Queried x
            \<longrightarrow> x = or_else idArg (tokenId (snd (run s evs)))
                \<and> credential
                    (snd (handleVerify verifyCredential idArg (snd (run s evs)) (snd (run s evs)))) =
                    (case verifyCredential x of Inr c \<Rightarrow> c | Inl err \<Rightarrow> None)
                \<and> error
                    (snd (handleVerify verifyCredential idArg (snd (run s evs)) (snd (run s evs)))) =
                    (case verifyCredential x of
                       Inr (Some c) \<Rightarrow> None
                     | Inr None \<Rightarrow> Some (js_str ''Credential not found or invalid token ID'')
                     | Inl err \<Rightarrow>
                         Some (or_else (message err) (js_str ''Failed to verify credential''))))"
proof -
  let ?t = "snd (run s evs)"
  let ?log = "fst (run s evs)"
  let ?r = "handleVerify verifyCredential idArg ?t ?t"
  from assms run_keeps [of s evs] run_count [of s evs]
  have w: "truthy (walletAddress ?t)" and a: "\<not> hasAccess ?t"
    and c: "verificationCount ?t = successes ?log"
    by simp_all
  from w a c handleVerify_limit_iff [of verifyCredential idArg ?t]
  have 1: "fst ?r = LimitReached \<longleftrightarrow>
      trim (or_else idArg (tokenId ?t)) \<noteq> [] \<and> 3 \<le> successes ?log"
    by simp
  have 2: "fst ?r = LimitReached \<longrightarrow>
      snd ?r = ?t\<lparr>error := Some (js_str ''Verification limit reached. Please subscribe to continue.''),
        showPricing := True\<rparr> \<and> service_calls (fst ?r) = []"
    using handleVerify_limit_state [of verifyCredential idArg ?t] by simp
  from 1 successes_le [of ?log] have 3: "length ?log < 3 \<longrightarrow> fst ?r \<noteq> LimitReached"
    by simp
  have 4: "\<forall>x. fst ?r = Queried x \<longrightarrow>
      x = or_else idArg (tokenId ?t)
      \<and> credential (snd ?r) = (case verifyCredential x of Inr c \<Rightarrow> c | Inl err \<Rightarrow> None)
      \<and> error (snd ?r) =
          (case verifyCredential x of
             Inr (Some c) \<Rightarrow> None
           | Inr None \<Rightarrow> Some (js_str ''Credential not found or invalid token ID'')
           | Inl err \<Rightarrow> Some (or_else (message err) (js_str ''Failed to verify credential'')))"
    using handleVerify_queried [of verifyCredential idArg ?t] by blast
  from 1 2 3 4 show ?thesis
    by (intro conjI)
qed

theorem cap_after_three_successes_witness:
  "truthy (walletAddress ((initial :: nat portal)\<lparr>tokenId := [0x35], walletAddress := Some [0x30, 0x78]\<rparr>))
   \<and> \<not> hasAccess ((initial :: nat portal)\<lparr>tokenId := [0x35], walletAddress := Some [0x30, 0x78]\<rparr>)
   \<and> verificationCount ((initial :: nat portal)\<lparr>tokenId := [0x35], walletAddress := Some [0x30, 0x78]\<rparr>) = 0
   \<and> map fst (fst (run ((initial :: nat portal)\<lparr>tokenId := [0x35], walletAddress := Some [0x30, 0x78]\<rparr>)
        [Verify (\<lambda>x. Inr (Some 8)) None, Verify (\<lambda>x. Inr (Some 8)) None,
         Verify (\<lambda>x. Inr (Some 8)) None])) = [Queried [0x35], Queried [0x35], Queried [0x35]]
   \<and> successes (fst (run ((initial :: nat portal)\<lparr>tokenId := [0x35], walletAddress := Some [0x30, 0x78]\<rparr>)
        [Verify (\<lambda>x. Inr (Some 8)) None, Verify (\<lambda>x. Inr (Some 8)) None,
         Verify (\<lambda>x. Inr (Some 8)) None])) = 3
   \<and> fst (handleVerify (\<lambda>x. Inr (Some 8)) None
        (snd (run ((initial :: nat portal)\<lparr>tokenId := [0x35], walletAddress := Some [0x30, 0x78]\<rparr>)
          [Verify (\<lambda>x. Inr (Some 8)) None, Verify (\<lambda>x. Inr (Some 8)) None,
           Verify (\<lambda>x. Inr (Some 8)) None]))
        (snd (run ((initial :: nat portal)\<lparr>tokenId := [0x35], walletAddress := Some [0x30, 0x78]\<rparr>)
          [Verify (\<lambda>x. Inr (Some 8)) None, Verify (\<lambda>x. Inr (Some 8)) None,
           Verify (\<lambda>x. Inr (Some 8)) None]))) = LimitReached
   \<and> service_calls (fst (handleVerify (\<lambda>x. Inr (Some 8)) None
        (snd (run ((initial :: nat portal)\<lparr>tokenId := [0x35], walletAddress := Some [0x30, 0x78]\<rparr>)
          [Verify (\<lambda>x. Inr (Some 8)) None, Verify (\<lambda>x. Inr (Some 8)) None,
           Verify (\<lambda>x. Inr (Some 8)) None]))
        (snd (run ((initial :: nat portal)\<lparr>tokenId := [0x35], walletAddress := Some [0x30, 0x78]\<rparr>)
          [Verify (\<lambda>x. Inr (Some 8)) None, Verify (\<lambda>x. Inr (Some 8)) None,
           Verify (\<lambda>x. Inr (Some 8)) None])))) = []"
proof -
  let ?s = "(initial :: nat portal)\<lparr>tokenId := [0x35], walletAddress := Some [0x30, 0x78]\<rparr>"
  let ?vc = "\<lambda>x :: jsstring. Inr (Some 8) :: js_error + nat option"
  let ?evs = "[Verify ?vc None, Verify ?vc None, Verify ?vc None]"
  have h1: "truthy (walletAddress ?s)"
    by (simp add: truthy_def)
  have h2: "\<not> hasAccess ?s"
    by (simp add: initial_def)
  have h3: "verificationCount ?s = 0"
    by (simp add: initial_def)
  have l: "map fst (fst (run ?s ?evs)) = [Queried [0x35], Queried [0x35], Queried [0x35]]"
    by code_simp
  have n: "successes (fst (run ?s ?evs)) = 3"
    by code_simp
  have b: "trim (or_else None (tokenId (snd (run ?s ?evs)))) \<noteq> []"
    by code_simp
  let ?r = "handleVerify ?vc None (snd (run ?s ?evs)) (snd (run ?s ?evs))"
  note t = cap_after_three_successes [OF h1 h2 h3, of ?vc None ?evs]
  from t have "fst ?r = LimitReached \<longleftrightarrow>
      trim (or_else None (tokenId (snd (run ?s ?evs)))) \<noteq> [] \<and> 3 \<le> successes (fst (run ?s ?evs))"
    by (rule conjunct1)
  with b n have r: "fst ?r = LimitReached"
    by (simp only: simp_thms order_refl)
  with t have c: "service_calls (fst ?r) = []"
    by blast
  from h1 h2 h3 l n r c show ?thesis
    by (intro conjI)
qed

section \<open>Verification from the \<open>verify\<close> query parameter\<close>

text \<open>
  C8. When the page loads with a non-empty \<open>verify\<close> query parameter, the input field is
  set to that value and a verification attempt is started with exactly that value, without
  any input of the visitor: a value that is not blank is the argument of the service call,
  and the credential shown is the answer of the service for it; a blank value is stopped
  by the input validation like any other attempt.
\<close>

theorem mount_auto_verify:
  assumes "v \<noteq> []"
  shows "tokenId (snd (mount verifyCredential ethereum (Some v) initial)) = v
         \<and> fst (mount verifyCredential ethereum (Some v) initial) =
             Some (if trim v = [] then EmptyInput else Queried v)
         \<and> (trim v \<noteq> [] \<longrightarrow>
              credential (snd (mount verifyCredential ethereum (Some v) initial)) =
                (case verifyCredential v of Inr c \<Rightarrow> c | Inl err \<Rightarrow> None))"
  using assms
  by (auto simp: mount_def handleVerify_def handleVerify_enter_def handleVerify_settle_def
      checkWalletConnection_def initial_def or_else_def truthy_def Let_def
      split: provider.splits list.splits sum.splits option.splits)

theorem mount_auto_verify_witness:
  "[0x34, 0x32] \<noteq> ([] :: jsstring)
   \<and> tokenId (snd (mount (\<lambda>x. Inr (Some (8 :: nat))) (Accounts [[0x30, 0x78]])
        (Some [0x34, 0x32]) initial)) = [0x34, 0x32]
   \<and> fst (mount (\<lambda>x. Inr (Some (8 :: nat))) (Accounts [[0x30, 0x78]])
        (Some [0x34, 0x32]) initial) = Some (Queried [0x34, 0x32])
   \<and> credential (snd (mount (\<lambda>x. Inr (Some (8 :: nat))) (Accounts [[0x30, 0x78]])
        (Some [0x34, 0x32]) initial)) = Some 8"
proof -
  let ?vc = "\<lambda>x :: jsstring. Inr (Some 8) :: js_error + nat option"
  have h: "[0x34, 0x32] \<noteq> ([] :: jsstring)"
    by simp
  have b: "trim [0x34, 0x32] \<noteq> []"
    by code_simp
  from h b mount_auto_verify [OF h, of ?vc "Accounts [[0x30, 0x78]]"] show ?thesis
    by simp
qed

section \<open>StudentWallet: failures while connecting and loading\<close>

text \<open>
  C7, as the claim states it, fails: when the on-chain fetch has returned and the fetch from
  the backing store throws, the credentials list has already been replaced.
\<close>

theorem loadCredentials_second_failure_changes_credentials:
  "getCredentialsByStudent
     \<lparr>connectWallet = Inr None, switchToSepolia = Inr (),
      getStudentCredentials = (\<lambda>a. Inr [7 :: nat]),
      getCredentialsByStudent = (\<lambda>a. Inl (JsError None) :: js_error + nat list)\<rparr> [0x30, 0x78]
     = Inl (JsError None)
   \<and> credentials (initial_sw :: (nat, nat) wallet) = []
   \<and> credentials (snd (loadCredentials
       \<lparr>connectWallet = Inr None, switchToSepolia = Inr (),
        getStudentCredentials = (\<lambda>a. Inr [7 :: nat]),
        getCredentialsByStudent = (\<lambda>a. Inl (JsError None) :: js_error + nat list)\<rparr>
       [0x30, 0x78] initial_sw)) = [7]"
  by (simp add: loadCredentials_def initial_sw_def)

text \<open>
  C7, amended.  The two fetches of \<open>loadCredentials\<close> are sequential.  A failure of the
  on-chain fetch is only logged, the backing store is not asked, and neither list changes.
  A failure of the fetch from the backing store is only logged and leaves the list of
  backing-store records unchanged, the credentials list being the one the on-chain fetch
  returned.  In both cases the loading flag ends false and nothing else changes.
\<close>

theorem loadCredentials_failure:
  "(getStudentCredentials env address = Inl err \<longrightarrow>
      loadCredentials env address s =
        ([Call_getStudentCredentials address,
          Console_error (js_str ''Error loading credentials:'') err],
         s\<lparr>loading_sw := False\<rparr>))
   \<and> (getStudentCredentials env address = Inr creds
        \<and> getCredentialsByStudent env address = Inl err \<longrightarrow>
      loadCredentials env address s =
        ([Call_getStudentCredentials address, Call_getCredentialsByStudent address,
          Console_error (js_str ''Error loading credentials:'') err],
         s\<lparr>credentials := creds, loading_sw := False\<rparr>))"
  by (simp add: loadCredentials_def)

theorem loadCredentials_failure_witness:
  "loadCredentials
     \<lparr>connectWallet = Inr None, switchToSepolia = Inr (),
      getStudentCredentials = (\<lambda>a. Inl (JsError None) :: js_error + nat list),
      getCredentialsByStudent = (\<lambda>a. Inr [] :: js_error + nat list)\<rparr>
     [0x30, 0x78] (initial_sw\<lparr>credentials := [5], dbCredentials := [6]\<rparr>) =
     ([Call_getStudentCredentials [0x30, 0x78],
       Console_error (js_str ''Error loading credentials:'') (JsError None)],
      initial_sw\<lparr>credentials := [5], dbCredentials := [6], loading_sw := False\<rparr>)
   \<and> loadCredentials
     \<lparr>connectWallet = Inr None, switchToSepolia = Inr (),
      getStudentCredentials = (\<lambda>a. Inr [7 :: nat]),
      getCredentialsByStudent = (\<lambda>a. Inl (JsError None) :: js_error + nat list)\<rparr>
     [0x30, 0x78] (initial_sw\<lparr>credentials := [5], dbCredentials := [6]\<rparr>) =
     ([Call_getStudentCredentials [0x30, 0x78], Call_getCredentialsByStudent [0x30, 0x78],
       Console_error (js_str ''Error loading credentials:'') (JsError None)],
      initial_sw\<lparr>credentials := [7], dbCredentials := [6], loading_sw := False\<rparr>)"
proof -
  let ?e1 = "\<lparr>connectWallet = Inr None, switchToSepolia = Inr (),
      getStudentCredentials = (\<lambda>a. Inl (JsError None) :: js_error + nat list),
      getCredentialsByStudent = (\<lambda>a. Inr [] :: js_error + nat list)\<rparr>"
  let ?e2 = "\<lparr>connectWallet = Inr None, switchToSepolia = Inr (),
      getStudentCredentials = (\<lambda>a. Inr [7 :: nat]),
      getCredentialsByStudent = (\<lambda>a. Inl (JsError None) :: js_error + nat list)\<rparr>"
  let ?s = "(initial_sw :: (nat, nat) wallet)\<lparr>credentials := [5], dbCredentials := [6]\<rparr>"
  have a: "getStudentCredentials ?e1 [0x30, 0x78] = Inl (JsError None)"
    by simp
  have b: "getStudentCredentials ?e2 [0x30, 0x78] = Inr [7]
      \<and> getCredentialsByStudent ?e2 [0x30, 0x78] = Inl (JsError None)"
    by simp
  from a loadCredentials_failure [of ?e1 "[0x30, 0x78]" "JsError None" ?s]
  have 1: "loadCredentials ?e1 [0x30, 0x78] ?s =
      ([Call_getStudentCredentials [0x30, 0x78],
        Console_error (js_str ''Error loading credentials:'') (JsError None)],
       ?s\<lparr>loading_sw := False\<rparr>)"
    by blast
  from b loadCredentials_failure [of ?e2 "[0x30, 0x78]" "JsError None" ?s "[7]"]
  have 2: "loadCredentials ?e2 [0x30, 0x78] ?s =
      ([Call_getStudentCredentials [0x30, 0x78], Call_getCredentialsByStudent [0x30, 0x78],
        Console_error (js_str ''Error loading credentials:'') (JsError None)],
       ?s\<lparr>credentials := [7], loading_sw := False\<rparr>)"
    by blast
  from 1 2 show ?thesis
    by simp
qed

lemma loadCredentials_keeps_address:
  "walletAddress_sw (snd (loadCredentials env address s)) = walletAddress_sw s"
  by (simp add: loadCredentials_def Let_def split: sum.splits)

lemma loadCredentials_logs:
  "getStudentCredentials env address = Inl err
     \<or> (getStudentCredentials env address = Inr creds
          \<and> getCredentialsByStudent env address = Inl err) \<Longrightarrow>
   Console_error (js_str ''Error loading credentials:'') err
     \<in> set (fst (loadCredentials env address s))"
  by (auto simp: loadCredentials_def)

text \<open>
  C6, as the claim states it, fails: the address is stored as soon as the wallet is
  authorised, before the network switch.  Here the switch throws on the connect screen:
  the failure is logged, and the component leaves the connect screen.
\<close>

theorem switch_failure_leaves_connect_screen:
  "connect_screen (initial_sw :: (nat, nat) wallet)
   \<and> handleConnectWallet_sw
       \<lparr>connectWallet = Inr (Some [0x30, 0x78]), switchToSepolia = Inl (JsError None),
        getStudentCredentials = (\<lambda>a. Inr [7 :: nat]),
        getCredentialsByStudent = (\<lambda>a. Inr [] :: js_error + nat list)\<rparr> initial_sw =
       ([Call_connectWallet, Call_switchToSepolia,
         Console_error (js_str ''Error connecting wallet:'') (JsError None)],
        initial_sw\<lparr>walletAddress_sw := Some [0x30, 0x78]\<rparr>)
   \<and> \<not> connect_screen (snd (handleConnectWallet_sw
       \<lparr>connectWallet = Inr (Some [0x30, 0x78]), switchToSepolia = Inl (JsError None),
        getStudentCredentials = (\<lambda>a. Inr [7 :: nat]),
        getCredentialsByStudent = (\<lambda>a. Inr [] :: js_error + nat list)\<rparr>
       (initial_sw :: (nat, nat) wallet)))"
  by (simp add: handleConnectWallet_sw_def connect_screen_def truthy_def or_else_def
      initial_sw_def)

text \<open>
  C6, amended.  Every failure while connecting is caught and logged.  When the wallet
  authorisation throws, the address is left as it was, so a disconnected component stays on
  the connect screen.  When the network switch throws, or when the load of the credentials
  fails (which \<open>loadCredentials\<close> catches and logs itself), the authorised address is
  already stored and the component shows the connected view.  The loading flag ends false.
\<close>

theorem handleConnectWallet_failure:
  "(connectWallet env = Inl err \<longrightarrow>
      handleConnectWallet_sw env s =
        ([Call_connectWallet, Console_error (js_str ''Error connecting wallet:'') err],
         s\<lparr>loading_sw := False\<rparr>)
      \<and> connect_screen (snd (handleConnectWallet_sw env s)) = connect_screen s)
   \<and> (connectWallet env = Inr (Some a) \<and> a \<noteq> [] \<and> switchToSepolia env = Inl err \<longrightarrow>
      handleConnectWallet_sw env s =
        ([Call_connectWallet, Call_switchToSepolia,
          Console_error (js_str ''Error connecting wallet:'') err],
         s\<lparr>walletAddress_sw := Some a, loading_sw := False\<rparr>)
      \<and> \<not> connect_screen (snd (handleConnectWallet_sw env s)))
   \<and> (connectWallet env = Inr (Some a) \<and> a \<noteq> [] \<and> switchToSepolia env = Inr ()
        \<and> (getStudentCredentials env a = Inl err
            \<or> (getStudentCredentials env a = Inr creds
                \<and> getCredentialsByStudent env a = Inl err)) \<longrightarrow>
      Console_error (js_str ''Error loading credentials:'') err
        \<in> set (fst (handleConnectWallet_sw env s))
      \<and> walletAddress_sw (snd (handleConnectWallet_sw env s)) = Some a
      \<and> loading_sw (snd (handleConnectWallet_sw env s)) = False
      \<and> \<not> connect_screen (snd (handleConnectWallet_sw env s)))"
proof (intro conjI impI)
  assume "connectWallet env = Inl err"
  then show "handleConnectWallet_sw env s =
        ([Call_connectWallet, Console_error (js_str ''Error connecting wallet:'') err],
         s\<lparr>loading_sw := False\<rparr>)"
    and "connect_screen (snd (handleConnectWallet_sw env s)) = connect_screen s"
    by (simp_all add: handleConnectWallet_sw_def connect_screen_def)
next
  assume "connectWallet env = Inr (Some a) \<and> a \<noteq> [] \<and> switchToSepolia env = Inl err"
  then show "handleConnectWallet_sw env s =
        ([Call_connectWallet, Call_switchToSepolia,
          Console_error (js_str ''Error connecting wallet:'') err],
         s\<lparr>walletAddress_sw := Some a, loading_sw := False\<rparr>)"
    and "\<not> connect_screen (snd (handleConnectWallet_sw env s))"
    by (simp_all add: handleConnectWallet_sw_def connect_screen_def truthy_def or_else_def)
next
  assume h: "connectWallet env = Inr (Some a) \<and> a \<noteq> [] \<and> switchToSepolia env = Inr ()
        \<and> (getStudentCredentials env a = Inl err
            \<or> (getStudentCredentials env a = Inr creds
                \<and> getCredentialsByStudent env a = Inl err))"
  let ?s2 = "s\<lparr>loading_sw := True, walletAddress_sw := Some a\<rparr>"
  from h have r: "handleConnectWallet_sw env s =
      ([Call_connectWallet, Call_switchToSepolia] @ fst (loadCredentials env a ?s2),
       (snd (loadCredentials env a ?s2))\<lparr>loading_sw := False\<rparr>)"
    by (simp add: handleConnectWallet_sw_def truthy_def or_else_def split: prod.splits)
  from h have "Console_error (js_str ''Error loading credentials:'') err
      \<in> set (fst (loadCredentials env a ?s2))"
    by (intro loadCredentials_logs) blast
  with r show "Console_error (js_str ''Error loading credentials:'') err
      \<in> set (fst (handleConnectWallet_sw env s))"
    by simp
  from r loadCredentials_keeps_address [of env a ?s2]
  show w: "walletAddress_sw (snd (handleConnectWallet_sw env s)) = Some a"
    by simp
  from r show "loading_sw (snd (handleConnectWallet_sw env s)) = False"
    by simp
  from w h show "\<not> connect_screen (snd (handleConnectWallet_sw env s))"
    by (simp add: connect_screen_def truthy_def)
qed


theorem handleConnectWallet_failure_witness:
  "handleConnectWallet_sw
     \<lparr>connectWallet = Inl (JsError None), switchToSepolia = Inr (),
      getStudentCredentials = (\<lambda>a. Inr [7 :: nat]),
      getCredentialsByStudent = (\<lambda>a. Inr [] :: js_error + nat list)\<rparr> initial_sw =
     ([Call_connectWallet, Console_error (js_str ''Error connecting wallet:'') (JsError None)],
      initial_sw\<lparr>loading_sw := False\<rparr>)
   \<and> handleConnectWallet_sw
     \<lparr>connectWallet = Inr (Some [0x30, 0x78]), switchToSepolia = Inl (JsError None),
      getStudentCredentials = (\<lambda>a. Inr [7 :: nat]),
      getCredentialsByStudent = (\<lambda>a. Inr [] :: js_error + nat list)\<rparr> initial_sw =
     ([Call_connectWallet, Call_switchToSepolia,
       Console_error (js_str ''Error connecting wallet:'') (JsError None)],
      initial_sw\<lparr>walletAddress_sw := Some [0x30, 0x78], loading_sw := False\<rparr>)
   \<and> Console_error (js_str ''Error loading credentials:'') (JsError None)
       \<in> set (fst (handleConnectWallet_sw
         \<lparr>connectWallet = Inr (Some [0x30, 0x78]), switchToSepolia = Inr (),
          getStudentCredentials = (\<lambda>a. Inl (JsError None) :: js_error + nat list),
          getCredentialsByStudent = (\<lambda>a. Inr [] :: js_error + nat list)\<rparr> initial_sw))
   \<and> \<not> connect_screen (snd (handleConnectWallet_sw
         \<lparr>connectWallet = Inr (Some [0x30, 0x78]), switchToSepolia = Inr (),
          getStudentCredentials = (\<lambda>a. Inl (JsError None) :: js_error + nat list),
          getCredentialsByStudent = (\<lambda>a. Inr [] :: js_error + nat list)\<rparr> initial_sw))"
proof -
  let ?e1 = "\<lparr>connectWallet = Inl (JsError None), switchToSepolia = Inr (),
      getStudentCredentials = (\<lambda>a. Inr [7 :: nat]),
      getCredentialsByStudent = (\<lambda>a. Inr [] :: js_error + nat list)\<rparr>"
  let ?e2 = "\<lparr>connectWallet = Inr (Some [0x30, 0x78]), switchToSepolia = Inl (JsError None),
      getStudentCredentials = (\<lambda>a. Inr [7 :: nat]),
      getCredentialsByStudent = (\<lambda>a. Inr [] :: js_error + nat list)\<rparr>"
  let ?e3 = "\<lparr>connectWallet = Inr (Some [0x30, 0x78]), switchToSepolia = Inr (),
      getStudentCredentials = (\<lambda>a. Inl (JsError None) :: js_error + nat list),
      getCredentialsByStudent = (\<lambda>a. Inr [] :: js_error + nat list)\<rparr>"
  let ?s = "initial_sw :: (nat, nat) wallet"
  have a: "connectWallet ?e1 = Inl (JsError None)"
    by simp
  have b: "connectWallet ?e2 = Inr (Some [0x30, 0x78]) \<and> [0x30, 0x78] \<noteq> ([] :: jsstring)
      \<and> switchToSepolia ?e2 = Inl (JsError None)"
    by simp
  have c: "connectWallet ?e3 = Inr (Some [0x30, 0x78]) \<and> [0x30, 0x78] \<noteq> ([] :: jsstring)
      \<and> switchToSepolia ?e3 = Inr ()
      \<and> (getStudentCredentials ?e3 [0x30, 0x78] = Inl (JsError None)
          \<or> (getStudentCredentials ?e3 [0x30, 0x78] = Inr []
              \<and> getCredentialsByStudent ?e3 [0x30, 0x78] = Inl (JsError None)))"
    by simp
  from a handleConnectWallet_failure
    [where env = ?e1 and err = "JsError None" and s = ?s and a = "[]" and creds = "[]"]
  have 1: "handleConnectWallet_sw ?e1 ?s =
      ([Call_connectWallet, Console_error (js_str ''Error connecting wallet:'') (JsError None)],
       ?s\<lparr>loading_sw := False\<rparr>)"
    by blast
  from b handleConnectWallet_failure
    [where env = ?e2 and err = "JsError None" and s = ?s and a = "[0x30, 0x78]" and creds = "[]"]
  have 2: "handleConnectWallet_sw ?e2 ?s =
      ([Call_connectWallet, Call_switchToSepolia,
        Console_error (js_str ''Error connecting wallet:'') (JsError None)],
       ?s\<lparr>walletAddress_sw := Some [0x30, 0x78], loading_sw := False\<rparr>)"
    by blast
  from c handleConnectWallet_failure
    [where env = ?e3 and err = "JsError None" and s = ?s and a = "[0x30, 0x78]" and creds = "[]"]
  have 3: "Console_error (js_str ''Error loading credentials:'') (JsError None)
       \<in> set (fst (handleConnectWallet_sw ?e3 ?s))
     \<and> \<not> connect_screen (snd (handleConnectWallet_sw ?e3 ?s))"
    by blast
  from 1 2 3 show ?thesis
    by (intro conjI) blast+
qed

end
